theory Spec2Isabelle
  imports Main "HOL-Library.Sublist" "HOL-Library.AList" "HOL-Library.Multiset"
begin

section \<open>Strings\<close>

text \<open>
  A Python \<open>str\<close> is modelled by the list of bytes of its UTF-8 encoding, which is also
  what the scripts write to disk (\<open>encoding='utf-8'\<close>). Concatenation and
  \<open>str.replace\<close> with ASCII patterns act on the encoding exactly as on the code points.
  \<open>str.lower\<close> is modelled on the ASCII letters; every registered path is ASCII.
\<close>

function str_replace :: "string \<Rightarrow> string \<Rightarrow> string \<Rightarrow> string" where
  "str_replace s old new =
     (if old = [] then (case s of [] \<Rightarrow> new | c # cs \<Rightarrow> new @ c # str_replace cs old new)
      else if s = [] then []
      else if take (length old) s = old then new @ str_replace (drop (length old) s) old new
      else hd s # str_replace (tl s) old new)"
  by pat_completeness auto
termination
  by (relation "measure (\<lambda>(s, old, new). length s)") auto

declare str_replace.simps [simp del]

definition lower_char :: "char \<Rightarrow> char" where
  "lower_char c =
     (case map_of (zip ''ABCDEFGHIJKLMNOPQRSTUVWXYZ'' ''abcdefghijklmnopqrstuvwxyz'') c of
        Some d \<Rightarrow> d
      | None \<Rightarrow> c)"

definition lower :: "string \<Rightarrow> string" where
  "lower s = map lower_char s"

section \<open>build-html-guide.py\<close>

subsection \<open>The guide registry\<close>

record guide =
  file' :: string
  title :: string
  icon :: string

record guides =
  core :: "guide list"
  feature_tests :: "guide list"
  workflows :: "guide list"

definition GUIDES :: guides where
  \<open>GUIDES = \<lparr>
    core = [
      \<lparr>file' = ''README.md'', title = ''Overview'', icon = [CHR 0xF0, CHR 0x9F, CHR 0x93, CHR 0x8B]\<rparr>,
      \<lparr>file' = ''MASTER_TESTING_GUIDE.md'', title = ''Master Testing Guide'', icon = [CHR 0xF0, CHR 0x9F, CHR 0x8E, CHR 0xAF]\<rparr>,
      \<lparr>file' = ''TESTNET_SETUP_GUIDE.md'', title = ''Testnet Setup'', icon = [CHR 0xE2, CHR 0x9A, CHR 0x99, CHR 0xEF, CHR 0xB8, CHR 0x8F]\<rparr>,
      \<lparr>file' = ''PRIORITY_TEST_EXECUTION_GUIDE.md'', title = ''Priority Tests (P0)'', icon = [CHR 0xF0, CHR 0x9F, CHR 0x9A, CHR 0x80]\<rparr>,
      \<lparr>file' = ''BUG_REPORTING_GUIDE.md'', title = ''Bug Reporting'', icon = [CHR 0xF0, CHR 0x9F, CHR 0x90, CHR 0x9B]\<rparr>,
      \<lparr>file' = ''TEST_RESULTS_TRACKER.md'', title = ''Results Tracker'', icon = [CHR 0xF0, CHR 0x9F, CHR 0x93, CHR 0x8A]\<rparr>,
      \<lparr>file' = ''VISUAL_TESTING_REFERENCE.md'', title = ''Visual Testing'', icon = [CHR 0xF0, CHR 0x9F, CHR 0x8E, CHR 0xA8]\<rparr>,
      \<lparr>file' = ''BITCOIN_SPECIFIC_TESTING.md'', title = ''Bitcoin Testing'', icon = [CHR 0xE2, CHR 0x82, CHR 0xBF]\<rparr>,
      \<lparr>file' = ''EXTENSION_INSTALLATION_GUIDE.md'', title = ''Extension Install'', icon = [CHR 0xF0, CHR 0x9F, CHR 0x93, CHR 0xA6]\<rparr>,
      \<lparr>file' = ''DISTRIBUTION_GUIDE.md'', title = ''Distribution'', icon = [CHR 0xF0, CHR 0x9F, CHR 0x8C, CHR 0x90]\<rparr>
    ],
    feature_tests = [
      \<lparr>file' = ''FEATURE_TESTS/01_TAB_ARCHITECTURE.md'', title = ''01. Tab Architecture'', icon = [CHR 0xF0, CHR 0x9F, CHR 0xAA, CHR 0x9F]\<rparr>,
      \<lparr>file' = ''FEATURE_TESTS/02_WALLET_SETUP.md'', title = ''02. Wallet Setup'', icon = [CHR 0xF0, CHR 0x9F, CHR 0x92, CHR 0xBC]\<rparr>,
      \<lparr>file' = ''FEATURE_TESTS/03_AUTHENTICATION.md'', title = ''03. Authentication'', icon = [CHR 0xF0, CHR 0x9F, CHR 0x94, CHR 0x90]\<rparr>,
      \<lparr>file' = ''FEATURE_TESTS/04_ACCOUNT_MANAGEMENT.md'', title = ''04. Account Management'', icon = [CHR 0xF0, CHR 0x9F, CHR 0x91, CHR 0xA4]\<rparr>,
      \<lparr>file' = ''FEATURE_TESTS/05_SEND_TRANSACTIONS.md'', title = ''05. Send Transactions'', icon = [CHR 0xF0, CHR 0x9F, CHR 0x93, CHR 0xA4]\<rparr>,
      \<lparr>file' = ''FEATURE_TESTS/06_RECEIVE_TRANSACTIONS.md'', title = ''06. Receive Transactions'', icon = [CHR 0xF0, CHR 0x9F, CHR 0x93, CHR 0xA5]\<rparr>,
      \<lparr>file' = ''FEATURE_TESTS/07_TRANSACTION_HISTORY.md'', title = ''07. Transaction History'', icon = [CHR 0xF0, CHR 0x9F, CHR 0x93, CHR 0x9C]\<rparr>,
      \<lparr>file' = ''FEATURE_TESTS/08_MULTISIG_WALLETS.md'', title = ''08. Multisig Wallets'', icon = [CHR 0xF0, CHR 0x9F, CHR 0x94, CHR 0x91]\<rparr>,
      \<lparr>file' = ''FEATURE_TESTS/09_SECURITY_FEATURES.md'', title = ''09. Security Features'', icon = [CHR 0xF0, CHR 0x9F, CHR 0x9B, CHR 0xA1, CHR 0xEF, CHR 0xB8, CHR 0x8F]\<rparr>,
      \<lparr>file' = ''FEATURE_TESTS/10_SETTINGS_PREFERENCES.md'', title = ''10. Settings'', icon = [CHR 0xE2, CHR 0x9A, CHR 0x99, CHR 0xEF, CHR 0xB8, CHR 0x8F]\<rparr>,
      \<lparr>file' = ''FEATURE_TESTS/10_CONTACT_MANAGEMENT.md'', title = ''10. Contact Management'', icon = [CHR 0xF0, CHR 0x9F, CHR 0x93, CHR 0x87]\<rparr>,
      \<lparr>file' = ''FEATURE_TESTS/11_ACCESSIBILITY_PERFORMANCE.md'', title = ''11. Accessibility'', icon = [CHR 0xE2, CHR 0x99, CHR 0xBF]\<rparr>,
      \<lparr>file' = ''FEATURE_TESTS/11_TRANSACTION_FILTERING.md'', title = ''11. Transaction Filtering'', icon = [CHR 0xF0, CHR 0x9F, CHR 0x94, CHR 0x8D]\<rparr>,
      \<lparr>file' = ''FEATURE_TESTS/12_TRANSACTION_METADATA.md'', title = ''12. Transaction Metadata'', icon = [CHR 0xF0, CHR 0x9F, CHR 0x8F, CHR 0xB7, CHR 0xEF, CHR 0xB8, CHR 0x8F]\<rparr>,
      \<lparr>file' = ''FEATURE_TESTS/13_ENCRYPTED_BACKUP.md'', title = ''13. Encrypted Backup'', icon = [CHR 0xF0, CHR 0x9F, CHR 0x92, CHR 0xBE]\<rparr>
    ],
    workflows = [
      \<lparr>file' = ''PSBT_WORKFLOW_TESTING_GUIDE.md'', title = ''PSBT Workflow'', icon = [CHR 0xF0, CHR 0x9F, CHR 0x94, CHR 0x84]\<rparr>
    ]\<rparr>\<close>

subsection \<open>Reading and escaping\<close>

datatype error =
  FileNotFoundError | IsADirectoryError | NotADirectoryError | PermissionError
  | UnicodeDecodeError | FileExistsError

text \<open>What \<open>open(filepath, 'r', encoding='utf-8')\<close> followed by \<open>f.read()\<close> does at a path.\<close>

datatype read_result = Content string | Raises error

text \<open>
  \<open>read_file\<close> returns the content (\<open>None\<close> for a missing file) and the lines it
  printed; every exception other than \<open>FileNotFoundError\<close> leaves the function.
\<close>

definition read_file :: "(string \<Rightarrow> read_result) \<Rightarrow> string \<Rightarrow> error + (string option \<times> string list)" where
  \<open>read_file disk filepath =
     (case disk filepath of
        Content s \<Rightarrow> Inr (Some s, [])
      | Raises e \<Rightarrow>
          (if e = FileNotFoundError
           then Inr (None, [''Warning: File not found: '' @ filepath])
           else Inl e))\<close>

definition escape_for_js :: "string option \<Rightarrow> string" where
  \<open>escape_for_js content =
     (case content of
        None \<Rightarrow> ''''
      | Some c \<Rightarrow>
          str_replace
            (str_replace (str_replace c [CHR 0x5C] [CHR 0x5C, CHR 0x5C]) [CHR 0x60] [CHR 0x5C, CHR 0x60])
            ''${'' ([CHR 0x5C] @ ''${''))\<close>

subsection \<open>Navigation\<close>

text \<open>The three identifier chains of \<open>generate_nav_html\<close>, one per loop.\<close>

definition core_nav_id :: "string \<Rightarrow> string" where
  \<open>core_nav_id f = lower (str_replace (str_replace f ''.md'' '''') ''/'' ''-'')\<close>

definition feature_nav_id :: "string \<Rightarrow> string" where
  \<open>feature_nav_id f =
     lower (str_replace (str_replace (str_replace f ''.md'' '''') ''FEATURE_TESTS/'' ''feature-'') ''/'' ''-'')\<close>

definition workflow_nav_id :: "string \<Rightarrow> string" where
  \<open>workflow_nav_id f =
     lower (str_replace (str_replace (str_replace f ''../'' '''') ''.md'' '''') ''/'' ''-'')\<close>

definition nav_link :: "string \<Rightarrow> guide \<Rightarrow> string" where
  \<open>nav_link guide_id g =
     ''      <li><a href="#'' @ guide_id @ ''" class="nav-link" data-guide="'' @ guide_id @ ''">''
       @ icon g @ '' '' @ title g @ ''</a></li>\<newline>''\<close>

definition nav_header :: string where
  \<open>nav_header = ''<nav id="sidebar">\<newline>  <div class="sidebar-header">\<newline>    <h2>'' @ [CHR 0xE2, CHR 0x82, CHR 0xBF] @ '' Bitcoin Wallet</h2>\<newline>    <p>Testing Guides</p>\<newline>  </div>\<newline>\<newline>  <div class="search-box">\<newline>    <input type="text" id="search-input" placeholder="Search guides..." />\<newline>  </div>\<newline>\<newline>  <div class="nav-section">\<newline>    <h3>Core Guides</h3>\<newline>    <ul>\<newline>''\<close>

definition nav_feature_heading :: string where
  \<open>nav_feature_heading = ''    </ul>\<newline>  </div>\<newline>\<newline>  <div class="nav-section">\<newline>    <h3>Feature Tests</h3>\<newline>    <ul>\<newline>''\<close>

definition nav_workflow_heading :: string where
  \<open>nav_workflow_heading = ''    </ul>\<newline>  </div>\<newline>\<newline>  <div class="nav-section">\<newline>    <h3>Workflows</h3>\<newline>    <ul>\<newline>''\<close>

definition nav_footer :: string where
  \<open>nav_footer = ''    </ul>\<newline>  </div>\<newline></nav>\<newline>''\<close>

definition generate_nav_html :: "guides \<Rightarrow> string" where
  \<open>generate_nav_html gs =
     (let nav_html = nav_header;
          nav_html = foldl (\<lambda>acc g. acc @ nav_link (core_nav_id (file' g)) g) nav_html (core gs);
          nav_html = nav_html @ nav_feature_heading;
          nav_html = foldl (\<lambda>acc g. acc @ nav_link (feature_nav_id (file' g)) g) nav_html (feature_tests gs);
          nav_html = nav_html @ nav_workflow_heading;
          nav_html = foldl (\<lambda>acc g. acc @ nav_link (workflow_nav_id (file' g)) g) nav_html (workflows gs)
      in nav_html @ nav_footer)\<close>

subsection \<open>The embedded content\<close>

text \<open>The tags \<open>'core'\<close>, \<open>'feature'\<close> and \<open>'workflow'\<close> paired with each guide.\<close>

datatype category = Core | Feature | Workflow

text \<open>The identifier the navigation loop of a category computes.\<close>

definition nav_guide_id :: "category \<Rightarrow> string \<Rightarrow> string" where
  "nav_guide_id cat f =
     (case cat of
        Core \<Rightarrow> core_nav_id f
      | Feature \<Rightarrow> feature_nav_id f
      | Workflow \<Rightarrow> workflow_nav_id f)"

definition all_guides :: "guides \<Rightarrow> (category \<times> guide) list" where
  "all_guides gs =
     map (Pair Core) (core gs) @ map (Pair Feature) (feature_tests gs)
       @ map (Pair Workflow) (workflows gs)"

text \<open>The identifier as \<open>generate_markdown_data\<close> computes it.\<close>

definition data_guide_id :: "category \<Rightarrow> string \<Rightarrow> string" where
  \<open>data_guide_id cat f =
     (let guide_id =
        lower (str_replace (str_replace (str_replace (str_replace f ''.md'' '''') ''../'' '''') ''./'' '''') ''/'' ''-'')
      in if cat = Feature then str_replace guide_id ''feature_tests'' ''feature'' else guide_id)\<close>

text \<open>\<open>os.path.join\<close> (POSIX) of the base directory and a relative path.\<close>

definition path_join :: "string \<Rightarrow> string \<Rightarrow> string" where
  \<open>path_join a b =
     (if b \<noteq> [] \<and> hd b = CHR ''/'' then b
      else if a = [] \<or> last a = CHR ''/'' then a @ b
      else a @ ''/'' @ b)\<close>

text \<open>Python's truth value of \<open>content\<close>: neither \<open>None\<close> nor the empty string.\<close>

definition truthy :: "string option \<Rightarrow> bool" where
  "truthy content = (case content of None \<Rightarrow> False | Some s \<Rightarrow> s \<noteq> [])"

definition data_line :: "string \<Rightarrow> string \<Rightarrow> string" where
  \<open>data_line guide_id escaped_content =
     ''  "'' @ guide_id @ ''": '' @ [CHR 0x60] @ escaped_content @ [CHR 0x60] @ '',\<newline>''\<close>

text \<open>
  The loop of \<open>generate_markdown_data\<close>: the state is the text built so far and the
  lines printed so far; an exception of \<open>read_file\<close> ends the loop.
\<close>

fun markdown_loop ::
  "(string \<Rightarrow> read_result) \<Rightarrow> string \<Rightarrow> (category \<times> guide) list \<Rightarrow> string \<times> string list
     \<Rightarrow> error + (string \<times> string list)" where
  "markdown_loop disk base_dir [] st = Inr st"
| "markdown_loop disk base_dir ((cat, g) # rest) (markdown_data, printed) =
     (case read_file disk (path_join base_dir (file' g)) of
        Inl e \<Rightarrow> Inl e
      | Inr (content, warned) \<Rightarrow>
          markdown_loop disk base_dir rest
            (if truthy content
             then markdown_data @ data_line (data_guide_id cat (file' g)) (escape_for_js content)
             else markdown_data,
             printed @ warned))"

definition generate_markdown_data ::
  "guides \<Rightarrow> string \<Rightarrow> (string \<Rightarrow> read_result) \<Rightarrow> error + (string \<times> string list)" where
  \<open>generate_markdown_data gs base_dir disk =
     (case markdown_loop disk base_dir (all_guides gs) (''const markdownContent = {\<newline>'', []) of
        Inl e \<Rightarrow> Inl e
      | Inr (markdown_data, printed) \<Rightarrow> Inr (markdown_data @ ''};\<newline>'', printed))\<close>

subsection \<open>The page\<close>

text \<open>The identifier as \<open>generate_html\<close> computes it for the empty sections.\<close>

definition section_guide_id :: "category \<Rightarrow> string \<Rightarrow> string" where
  \<open>section_guide_id cat f =
     (let guide_id =
        lower (str_replace (str_replace (str_replace (str_replace f ''.md'' '''') ''../'' '''') ''./'' '''') ''/'' ''-'')
      in if cat = Feature then str_replace guide_id ''feature_tests'' ''feature'' else guide_id)\<close>

definition section_line :: "string \<Rightarrow> string" where
  \<open>section_line guide_id =
     ''        <section id="'' @ guide_id @ ''" class="guide-section"><div class="markdown-body"></div></section>\<newline>''\<close>

text \<open>
  The three long literals of \<open>generate_html\<close> (the head with the stylesheet up to the
  sidebar, the welcome section, the client script) are plain string literals without
  interpolation; they are parameters here.
\<close>

record page_text =
  page_head :: string
  page_welcome :: string
  page_script :: string

text \<open>
  What a run can observe: the directory of the script, the files, whether the output file
  can be written, \<open>os.path.abspath\<close>, and the system clock (the script imports
  \<open>datetime\<close>).
\<close>

record env =
  script_dir :: string
  file_reads :: "string \<Rightarrow> read_result"
  write_error :: "string \<Rightarrow> error option"
  abspath :: "string \<Rightarrow> string"
  now :: nat

record html_run =
  output_path :: string
  html :: string
  console :: "string list"

definition generate_html :: "page_text \<Rightarrow> env \<Rightarrow> error + html_run" where
  \<open>generate_html pt e =
     (let base_dir = script_dir e;
          page = page_head pt;
          page = page @ generate_nav_html GUIDES;
          page = page @ page_welcome pt;
          page = foldl (\<lambda>acc (cat, g). acc @ section_line (section_guide_id cat (file' g))) page
                   (all_guides GUIDES);
          page = page @ ''    </main>\<newline>\<newline>    <script>\<newline>''
      in case generate_markdown_data GUIDES base_dir (file_reads e) of
           Inl err \<Rightarrow> Inl err
         | Inr (markdown_data, printed) \<Rightarrow>
             (let page = page @ markdown_data;
                  page = page @ page_script pt;
                  out = path_join base_dir ''testing-guide.html''
              in case write_error e out of
                   Some err \<Rightarrow> Inl err
                 | None \<Rightarrow>
                     Inr \<lparr>output_path = out, html = page,
                          console = printed @
                            [([CHR 0xE2, CHR 0x9C, CHR 0x85] @ '' HTML Testing Guide generated: '') @ out,
                             ([CHR 0xF0, CHR 0x9F, CHR 0x93, CHR 0x82] @ '' Open in browser: file://'') @ abspath e out,
                             '''',
                             [CHR 0xE2, CHR 0x9C, CHR 0xA8] @ '' New features:'',
                             ''   '' @ [CHR 0xE2, CHR 0x80, CHR 0xA2] @ '' Markdown rendered with marked.js (GitHub-style)'',
                             ''   '' @ [CHR 0xE2, CHR 0x80, CHR 0xA2] @ '' Compact, natural spacing'',
                             ''   '' @ [CHR 0xE2, CHR 0x80, CHR 0xA2] @ '' Better typography and readability'',
                             ''   '' @ [CHR 0xE2, CHR 0x80, CHR 0xA2] @ '' All interactive features preserved'']\<rparr>))\<close>

subsection \<open>The identifier normaliser as specified\<close>

text \<open>
  The rules of the specification, in its order: (a) strip a leading category-specific
  directory prefix if present, (b) strip a trailing Markdown extension, (c) replace every
  path separator by \<open>-\<close>, (d) lowercase. The prefixes are those the navigation chains
  name: \<open>FEATURE_TESTS/\<close> for feature tests, \<open>../\<close> for workflows, none for core.
\<close>

definition strip_prefix :: "string \<Rightarrow> string \<Rightarrow> string" where
  "strip_prefix p s = (if take (length p) s = p then drop (length p) s else s)"

definition strip_suffix :: "string \<Rightarrow> string \<Rightarrow> string" where
  "strip_suffix e s =
     (if length e \<le> length s \<and> drop (length s - length e) s = e
      then take (length s - length e) s else s)"

definition category_prefix :: "category \<Rightarrow> string" where
  \<open>category_prefix cat =
     (case cat of Core \<Rightarrow> '''' | Feature \<Rightarrow> ''FEATURE_TESTS/'' | Workflow \<Rightarrow> ''../'')\<close>

definition spec_guide_id :: "category \<Rightarrow> string \<Rightarrow> string" where
  \<open>spec_guide_id cat f =
     lower (str_replace (strip_suffix ''.md'' (strip_prefix (category_prefix cat) f)) ''/'' ''-'')\<close>

text \<open>
  The same rules with (a) changed for feature tests: their directory prefix is not
  dropped, it becomes \<open>feature-\<close>.
\<close>

definition amended_guide_id :: "category \<Rightarrow> string \<Rightarrow> string" where
  \<open>amended_guide_id cat f =
     (if cat = Feature \<and> take (length (category_prefix cat)) f = category_prefix cat
      then ''feature-'' @ spec_guide_id cat f
      else spec_guide_id cat f)\<close>

subsection \<open>Reading an escaped text back\<close>




subsection \<open>What the loop of generate_markdown_data amounts to\<close>

text \<open>The text of a guide that gets embedded: the file is there and not empty.\<close>

definition readable_text :: "(string \<Rightarrow> read_result) \<Rightarrow> string \<Rightarrow> guide \<Rightarrow> string option" where
  "readable_text disk base_dir g =
     (case disk (path_join base_dir (file' g)) of
        Content s \<Rightarrow> (if s = [] then None else Some s)
      | Raises e \<Rightarrow> None)"

text \<open>The properties of the emitted object literal, in the order of their lines.\<close>

definition markdown_entries ::
  "(string \<Rightarrow> read_result) \<Rightarrow> string \<Rightarrow> (category \<times> guide) list \<Rightarrow> (string \<times> string) list" where
  "markdown_entries disk base_dir cgs =
     concat (map (\<lambda>(cat, g).
       (case readable_text disk base_dir g of
          None \<Rightarrow> []
        | Some s \<Rightarrow> [(data_guide_id cat (file' g), escape_for_js (Some s))])) cgs)"

text \<open>The warnings of \<open>read_file\<close>, one for each missing file.\<close>

definition read_warnings ::
  "(string \<Rightarrow> read_result) \<Rightarrow> string \<Rightarrow> (category \<times> guide) list \<Rightarrow> string list" where
  \<open>read_warnings disk base_dir cgs =
     concat (map (\<lambda>(cat, g).
       (if disk (path_join base_dir (file' g)) = Raises FileNotFoundError
        then [''Warning: File not found: '' @ path_join base_dir (file' g)]
        else [])) cgs)\<close>

text \<open>No read raises anything but \<open>FileNotFoundError\<close>.\<close>

definition reads_ok :: "(string \<Rightarrow> read_result) \<Rightarrow> string \<Rightarrow> (category \<times> guide) list \<Rightarrow> bool" where
  "reads_ok disk base_dir cgs =
     list_all (\<lambda>(cat, g).
       (case disk (path_join base_dir (file' g)) of
          Content s \<Rightarrow> True
        | Raises e \<Rightarrow> e = FileNotFoundError)) cgs"



text \<open>The text that \<open>generate_markdown_data\<close> returns for a list of properties.\<close>

definition markdown_text :: "(string \<times> string) list \<Rightarrow> string" where
  \<open>markdown_text kvs =
     ''const markdownContent = {\<newline>'' @ concat (map (\<lambda>(k, v). data_line k v) kvs) @ ''};\<newline>''\<close>

text \<open>The part of the page before the embedded content.\<close>

definition page_top :: "page_text \<Rightarrow> string" where
  \<open>page_top pt =
     page_head pt @ generate_nav_html GUIDES @ page_welcome pt
       @ concat (map (\<lambda>(cat, g). section_line (section_guide_id cat (file' g))) (all_guides GUIDES))
       @ ''    </main>\<newline>\<newline>    <script>\<newline>''\<close>

text \<open>The lines printed after the page is written.\<close>

definition closing_lines :: "env \<Rightarrow> string list" where
  \<open>closing_lines e =
     (let out = path_join (script_dir e) ''testing-guide.html'' in
      [([CHR 0xE2, CHR 0x9C, CHR 0x85] @ '' HTML Testing Guide generated: '') @ out,
       ([CHR 0xF0, CHR 0x9F, CHR 0x93, CHR 0x82] @ '' Open in browser: file://'') @ abspath e out,
       '''',
       [CHR 0xE2, CHR 0x9C, CHR 0xA8] @ '' New features:'',
       ''   '' @ [CHR 0xE2, CHR 0x80, CHR 0xA2] @ '' Markdown rendered with marked.js (GitHub-style)'',
       ''   '' @ [CHR 0xE2, CHR 0x80, CHR 0xA2] @ '' Compact, natural spacing'',
       ''   '' @ [CHR 0xE2, CHR 0x80, CHR 0xA2] @ '' Better typography and readability'',
       ''   '' @ [CHR 0xE2, CHR 0x80, CHR 0xA2] @ '' All interactive features preserved''])\<close>


text \<open>Two environments for examples: all files present but one, and a later run elsewhere.\<close>

definition example_page :: page_text where
  \<open>example_page = \<lparr>page_head = ''<html>'', page_welcome = ''<main>'', page_script = ''</script></html>''\<rparr>\<close>

definition example_env :: env where
  \<open>example_env =
     \<lparr>script_dir = ''/repo/TESTING_GUIDES'',
      file_reads = (\<lambda>p. if p = ''/repo/TESTING_GUIDES/README.md'' then Raises FileNotFoundError
                         else if p = ''/repo/TESTING_GUIDES/DISTRIBUTION_GUIDE.md'' then Content ''''
                         else Content ''# Guide ${x}''),
      write_error = (\<lambda>p. None),
      abspath = (\<lambda>p. p),
      now = 1730000000\<rparr>\<close>

definition example_env_later :: env where
  \<open>example_env_later =
     \<lparr>script_dir = ''/home/qa/TESTING_GUIDES'',
      file_reads = (\<lambda>p. if p = ''/home/qa/TESTING_GUIDES/README.md'' then Raises FileNotFoundError
                         else if p = ''/home/qa/TESTING_GUIDES/DISTRIBUTION_GUIDE.md'' then Content ''''
                         else if p = ''/home/qa/notes.txt'' then Content ''unrelated''
                         else Content ''# Guide ${x}''),
      write_error = (\<lambda>p. None),
      abspath = (\<lambda>p. ''/mnt'' @ p),
      now = 1730086400\<rparr>\<close>




section \<open>create-tester-package.py\<close>

subsection \<open>Files and directories\<close>

text \<open>
  The project directory is a tree: a directory lists its entries by name, a file holds
  either a text or a zip archive (the list of its entries, each an archive name and the
  data stored under it). Paths are lists of names, relative to the project directory.
  Permission bits are not part of the model.
\<close>

datatype fdata = Text string | Archive "(string list \<times> fdata) list"

datatype node = File fdata | Dir "(string \<times> node) list"

fun fs_get :: "node \<Rightarrow> string list \<Rightarrow> node option" where
  "fs_get n [] = Some n"
| "fs_get (File d) (x # xs) = None"
| "fs_get (Dir es) (x # xs) = (case map_of es x of None \<Rightarrow> None | Some m \<Rightarrow> fs_get m xs)"

text \<open>Create or replace the entry at a path whose parent directory exists.\<close>

fun fs_put :: "string list \<Rightarrow> node \<Rightarrow> node \<Rightarrow> node" where
  "fs_put [] new n = new"
| "fs_put (x # xs) new (File d) = File d"
| "fs_put (x # xs) new (Dir es) =
     (if xs = [] then Dir (AList.update x new es)
      else (case map_of es x of
              None \<Rightarrow> Dir es
            | Some m \<Rightarrow> Dir (AList.update x (fs_put xs new m) es)))"

text \<open>Remove the entry at a path, with everything below it.\<close>

fun fs_del :: "string list \<Rightarrow> node \<Rightarrow> node" where
  "fs_del [] n = n"
| "fs_del (x # xs) (File d) = File d"
| "fs_del (x # xs) (Dir es) =
     (if xs = [] then Dir (AList.delete x es)
      else (case map_of es x of
              None \<Rightarrow> Dir es
            | Some m \<Rightarrow> Dir (AList.update x (fs_del xs m) es)))"

text \<open>
  The files that the loop over \<open>os.walk\<close> visits, top down: the files of a directory,
  then the walk of each of its subdirectories.
\<close>

fun walk_files :: "string list \<Rightarrow> node \<Rightarrow> (string list \<times> fdata) list" where
  "walk_files p (File d) = []"
| "walk_files p (Dir es) =
     concat (map (\<lambda>(name, n). case n of File d \<Rightarrow> [(p @ [name], d)] | Dir sub \<Rightarrow> []) es)
       @ concat (map (\<lambda>(name, n). case n of File d \<Rightarrow> [] | Dir sub \<Rightarrow> walk_files (p @ [name]) n) es)"


definition path_exists :: "node \<Rightarrow> string list \<Rightarrow> bool" where
  "path_exists t p = (fs_get t p \<noteq> None)"

definition rmtree :: "string list \<Rightarrow> node \<Rightarrow> error + node" where
  "rmtree p t =
     (case fs_get t p of
        None \<Rightarrow> Inl FileNotFoundError
      | Some (File d) \<Rightarrow> Inl NotADirectoryError
      | Some (Dir es) \<Rightarrow> Inr (fs_del p t))"

definition mkdir :: "string list \<Rightarrow> node \<Rightarrow> error + node" where
  "mkdir p t =
     (if fs_get t p \<noteq> None then Inl FileExistsError
      else (case fs_get t (butlast p) of
              None \<Rightarrow> Inl FileNotFoundError
            | Some (File d) \<Rightarrow> Inl NotADirectoryError
            | Some (Dir es) \<Rightarrow> Inr (fs_put p (Dir []) t)))"





subsection \<open>Printing numbers\<close>




subsection \<open>The packaging run\<close>

text \<open>
  What a run reads from outside the project directory: the three readings of the clock
  as \<open>strftime\<close> renders them, the text of the README template for a package name and
  two dates, the size of a file in bytes (of the compressed archive too), the rendering
  \<open>:.2f\<close> of a size in MB, and the project directory as a string.
\<close>

record pkg_env =
  name_stamp :: string
  long_date :: string
  iso_date :: string
  readme_template :: "string \<Rightarrow> string \<Rightarrow> string \<Rightarrow> string"
  st_size :: "fdata \<Rightarrow> nat"
  mb_text :: "nat \<Rightarrow> string"
  root_text :: string


definition package_name :: "pkg_env \<Rightarrow> string" where
  \<open>package_name env = ''bitcoin-wallet-v0.12.0-testing-package-'' @ name_stamp env\<close>

definition package_dir :: "pkg_env \<Rightarrow> string list" where
  "package_dir env = [package_name env]"

definition zip_filename :: "pkg_env \<Rightarrow> string" where
  \<open>zip_filename env = package_name env @ ''.zip''\<close>

definition dist_dir :: "string list" where
  \<open>dist_dir = [''dist'']\<close>

definition testing_guides_dir :: "string list" where
  \<open>testing_guides_dir = [''TESTING_GUIDES'']\<close>

definition launchers :: "string list" where
  \<open>launchers = [''open-guide.sh'', ''open-guide.bat'']\<close>

definition docs :: "(string list \<times> string) list" where
  \<open>docs =
     [([''TESTING_GUIDES'', ''QUICK_START.md''], ''QUICK_START.md''),
      ([''TESTING_GUIDES'', ''HTML_GUIDE_README.md''], ''HTML_GUIDE_README.md''),
      ([''README.md''], ''PROJECT_README.md''),
      ([''CHANGELOG.md''], ''CHANGELOG.md'')]\<close>

definition gitignore_content :: string where
  \<open>gitignore_content = ''# Testing package - for distribution\<newline>*.log\<newline>.DS_Store\<newline>Thumbs.db\<newline>''\<close>

text \<open>An exception ends the run; otherwise the next step goes on from the new state.\<close>

definition and_then :: "error + 'a \<Rightarrow> ('a \<Rightarrow> error + 'b) \<Rightarrow> error + 'b" where
  "and_then m k = (case m of Inl err \<Rightarrow> Inl err | Inr x \<Rightarrow> k x)"

text \<open>Lines 29 to 33: remove a package directory that is there, then create it.\<close>

definition prepare_staging :: "pkg_env \<Rightarrow> node \<Rightarrow> error + node" where
  "prepare_staging env t =
     and_then (if path_exists t (package_dir env) then rmtree (package_dir env) t else Inr t)
       (mkdir (package_dir env))"











subsection \<open>What a packaging run leaves behind\<close>


definition is_dir :: "node \<Rightarrow> string list \<Rightarrow> bool" where
  "is_dir t p = (case fs_get t p of Some (Dir es) \<Rightarrow> True | _ \<Rightarrow> False)"

text \<open>An optional source: copied under the given name when it is there.\<close>

definition optional_file :: "node \<Rightarrow> string list \<Rightarrow> string \<Rightarrow> (string \<times> fdata) list" where
  "optional_file t src name = (case fs_get t src of Some (File d) \<Rightarrow> [(name, d)] | _ \<Rightarrow> [])"

definition file_entries :: "(string \<times> fdata) list \<Rightarrow> (string \<times> node) list" where
  "file_entries fs = map (\<lambda>(name, d). (name, File d)) fs"

text \<open>
  The files at the top of the package directory: the guide, the launchers and the
  documentation files that are present, the generated README and the ignore file.
\<close>

definition guide_files :: "node \<Rightarrow> (string \<times> fdata) list" where
  \<open>guide_files t = optional_file t (testing_guides_dir @ [''testing-guide.html'']) ''testing-guide.html''\<close>

definition launcher_files :: "node \<Rightarrow> string list \<Rightarrow> (string \<times> fdata) list" where
  "launcher_files t ls = concat (map (\<lambda>l. optional_file t (testing_guides_dir @ [l]) l) ls)"

definition doc_files :: "node \<Rightarrow> (string list \<times> string) list \<Rightarrow> (string \<times> fdata) list" where
  "doc_files t ds = concat (map (\<lambda>(src_path, dest_name). optional_file t src_path dest_name) ds)"

definition generated_files :: "pkg_env \<Rightarrow> (string \<times> fdata) list" where
  \<open>generated_files env =
     [(''TESTER_README.md'', Text (readme_template env (package_name env) (long_date env) (iso_date env))),
      (''.gitignore'', Text gitignore_content)]\<close>

definition staged_files :: "pkg_env \<Rightarrow> node \<Rightarrow> (string \<times> fdata) list" where
  "staged_files env t =
     guide_files t @ launcher_files t launchers @ doc_files t docs @ generated_files env"

text \<open>The files of the extension, by their paths inside \<open>dist/\<close>.\<close>

definition extension_files :: "node \<Rightarrow> (string list \<times> fdata) list" where
  "extension_files t = (case fs_get t dist_dir of None \<Rightarrow> [] | Some n \<Rightarrow> walk_files [] n)"

text \<open>The entries expected in the archive, named from the project directory.\<close>

definition archive_entries :: "pkg_env \<Rightarrow> node \<Rightarrow> (string list \<times> fdata) list" where
  \<open>archive_entries env t =
     map (\<lambda>(name, d). (package_dir env @ [name], d)) (staged_files env t)
       @ map (\<lambda>(p, d). (package_dir env @ [''extension''] @ p, d)) (extension_files t)\<close>

text \<open>The project directory without an old package directory and an old archive.\<close>

definition without_leftovers :: "pkg_env \<Rightarrow> node \<Rightarrow> node" where
  "without_leftovers env t = fs_del [zip_filename env] (fs_del (package_dir env) t)"



definition built_project :: node where
  \<open>built_project =
     Dir [(''dist'', Dir [(''manifest.json'', File (Text ''{}'')),
                        (''assets'', Dir [(''icon.png'', File (Text ''png''))])]),
          (''TESTING_GUIDES'', Dir [(''testing-guide.html'', File (Text ''<html>'')),
                                  (''open-guide.sh'', File (Text ''#!/bin/sh'')),
                                  (''QUICK_START.md'', File (Text ''quick''))]),
          (''README.md'', File (Text ''wallet''))]\<close>

definition rerun_project :: node where
  \<open>rerun_project =
     Dir [(''dist'', Dir [(''manifest.json'', File (Text ''{}'')),
                        (''assets'', Dir [(''icon.png'', File (Text ''png''))])]),
          (''bitcoin-wallet-v0.12.0-testing-package-20251104'',
             Dir [(''stale.txt'', File (Text ''left over''))]),
          (''TESTING_GUIDES'', Dir [(''testing-guide.html'', File (Text ''<html>'')),
                                  (''open-guide.sh'', File (Text ''#!/bin/sh'')),
                                  (''QUICK_START.md'', File (Text ''quick''))]),
          (''bitcoin-wallet-v0.12.0-testing-package-20251104.zip'',
             File (Archive [([''old''], Text ''old'')])),
          (''README.md'', File (Text ''wallet''))]\<close>

section \<open>Properties of build-html-guide.py\<close>

subsection \<open>String replacement\<close>




subsection \<open>The identifiers of the registered guides\<close>

lemma ids_01:
  "nav_guide_id Core ''README.md'' = ''readme''"
  "section_guide_id Core ''README.md'' = ''readme''"
  "data_guide_id Core ''README.md'' = ''readme''"
  "amended_guide_id Core ''README.md'' = ''readme''"
  by code_simp+

lemma ids_02:
  "nav_guide_id Core ''MASTER_TESTING_GUIDE.md'' = ''master_testing_guide''"
  "section_guide_id Core ''MASTER_TESTING_GUIDE.md'' = ''master_testing_guide''"
  "data_guide_id Core ''MASTER_TESTING_GUIDE.md'' = ''master_testing_guide''"
  "amended_guide_id Core ''MASTER_TESTING_GUIDE.md'' = ''master_testing_guide''"
  by code_simp+

lemma ids_03:
  "nav_guide_id Core ''TESTNET_SETUP_GUIDE.md'' = ''testnet_setup_guide''"
  "section_guide_id Core ''TESTNET_SETUP_GUIDE.md'' = ''testnet_setup_guide''"
  "data_guide_id Core ''TESTNET_SETUP_GUIDE.md'' = ''testnet_setup_guide''"
  "amended_guide_id Core ''TESTNET_SETUP_GUIDE.md'' = ''testnet_setup_guide''"
  by code_simp+

lemma ids_04:
  "nav_guide_id Core ''PRIORITY_TEST_EXECUTION_GUIDE.md'' = ''priority_test_execution_guide''"
  "section_guide_id Core ''PRIORITY_TEST_EXECUTION_GUIDE.md'' = ''priority_test_execution_guide''"
  "data_guide_id Core ''PRIORITY_TEST_EXECUTION_GUIDE.md'' = ''priority_test_execution_guide''"
  "amended_guide_id Core ''PRIORITY_TEST_EXECUTION_GUIDE.md'' = ''priority_test_execution_guide''"
  by code_simp+

lemma ids_05:
  "nav_guide_id Core ''BUG_REPORTING_GUIDE.md'' = ''bug_reporting_guide''"
  "section_guide_id Core ''BUG_REPORTING_GUIDE.md'' = ''bug_reporting_guide''"
  "data_guide_id Core ''BUG_REPORTING_GUIDE.md'' = ''bug_reporting_guide''"
  "amended_guide_id Core ''BUG_REPORTING_GUIDE.md'' = ''bug_reporting_guide''"
  by code_simp+

lemma ids_06:
  "nav_guide_id Core ''TEST_RESULTS_TRACKER.md'' = ''test_results_tracker''"
  "section_guide_id Core ''TEST_RESULTS_TRACKER.md'' = ''test_results_tracker''"
  "data_guide_id Core ''TEST_RESULTS_TRACKER.md'' = ''test_results_tracker''"
  "amended_guide_id Core ''TEST_RESULTS_TRACKER.md'' = ''test_results_tracker''"
  by code_simp+

lemma ids_07:
  "nav_guide_id Core ''VISUAL_TESTING_REFERENCE.md'' = ''visual_testing_reference''"
  "section_guide_id Core ''VISUAL_TESTING_REFERENCE.md'' = ''visual_testing_reference''"
  "data_guide_id Core ''VISUAL_TESTING_REFERENCE.md'' = ''visual_testing_reference''"
  "amended_guide_id Core ''VISUAL_TESTING_REFERENCE.md'' = ''visual_testing_reference''"
  by code_simp+

lemma ids_08:
  "nav_guide_id Core ''BITCOIN_SPECIFIC_TESTING.md'' = ''bitcoin_specific_testing''"
  "section_guide_id Core ''BITCOIN_SPECIFIC_TESTING.md'' = ''bitcoin_specific_testing''"
  "data_guide_id Core ''BITCOIN_SPECIFIC_TESTING.md'' = ''bitcoin_specific_testing''"
  "amended_guide_id Core ''BITCOIN_SPECIFIC_TESTING.md'' = ''bitcoin_specific_testing''"
  by code_simp+

lemma ids_09:
  "nav_guide_id Core ''EXTENSION_INSTALLATION_GUIDE.md'' = ''extension_installation_guide''"
  "section_guide_id Core ''EXTENSION_INSTALLATION_GUIDE.md'' = ''extension_installation_guide''"
  "data_guide_id Core ''EXTENSION_INSTALLATION_GUIDE.md'' = ''extension_installation_guide''"
  "amended_guide_id Core ''EXTENSION_INSTALLATION_GUIDE.md'' = ''extension_installation_guide''"
  by code_simp+

lemma ids_10:
  "nav_guide_id Core ''DISTRIBUTION_GUIDE.md'' = ''distribution_guide''"
  "section_guide_id Core ''DISTRIBUTION_GUIDE.md'' = ''distribution_guide''"
  "data_guide_id Core ''DISTRIBUTION_GUIDE.md'' = ''distribution_guide''"
  "amended_guide_id Core ''DISTRIBUTION_GUIDE.md'' = ''distribution_guide''"
  by code_simp+

lemma ids_11:
  "nav_guide_id Feature ''FEATURE_TESTS/01_TAB_ARCHITECTURE.md'' = ''feature-01_tab_architecture''"
  "section_guide_id Feature ''FEATURE_TESTS/01_TAB_ARCHITECTURE.md'' = ''feature-01_tab_architecture''"
  "data_guide_id Feature ''FEATURE_TESTS/01_TAB_ARCHITECTURE.md'' = ''feature-01_tab_architecture''"
  "amended_guide_id Feature ''FEATURE_TESTS/01_TAB_ARCHITECTURE.md'' = ''feature-01_tab_architecture''"
  by code_simp+

lemma ids_12:
  "nav_guide_id Feature ''FEATURE_TESTS/02_WALLET_SETUP.md'' = ''feature-02_wallet_setup''"
  "section_guide_id Feature ''FEATURE_TESTS/02_WALLET_SETUP.md'' = ''feature-02_wallet_setup''"
  "data_guide_id Feature ''FEATURE_TESTS/02_WALLET_SETUP.md'' = ''feature-02_wallet_setup''"
  "amended_guide_id Feature ''FEATURE_TESTS/02_WALLET_SETUP.md'' = ''feature-02_wallet_setup''"
  by code_simp+

lemma ids_13:
  "nav_guide_id Feature ''FEATURE_TESTS/03_AUTHENTICATION.md'' = ''feature-03_authentication''"
  "section_guide_id Feature ''FEATURE_TESTS/03_AUTHENTICATION.md'' = ''feature-03_authentication''"
  "data_guide_id Feature ''FEATURE_TESTS/03_AUTHENTICATION.md'' = ''feature-03_authentication''"
  "amended_guide_id Feature ''FEATURE_TESTS/03_AUTHENTICATION.md'' = ''feature-03_authentication''"
  by code_simp+

lemma ids_14:
  "nav_guide_id Feature ''FEATURE_TESTS/04_ACCOUNT_MANAGEMENT.md'' = ''feature-04_account_management''"
  "section_guide_id Feature ''FEATURE_TESTS/04_ACCOUNT_MANAGEMENT.md'' = ''feature-04_account_management''"
  "data_guide_id Feature ''FEATURE_TESTS/04_ACCOUNT_MANAGEMENT.md'' = ''feature-04_account_management''"
  "amended_guide_id Feature ''FEATURE_TESTS/04_ACCOUNT_MANAGEMENT.md'' = ''feature-04_account_management''"
  by code_simp+

lemma ids_15:
  "nav_guide_id Feature ''FEATURE_TESTS/05_SEND_TRANSACTIONS.md'' = ''feature-05_send_transactions''"
  "section_guide_id Feature ''FEATURE_TESTS/05_SEND_TRANSACTIONS.md'' = ''feature-05_send_transactions''"
  "data_guide_id Feature ''FEATURE_TESTS/05_SEND_TRANSACTIONS.md'' = ''feature-05_send_transactions''"
  "amended_guide_id Feature ''FEATURE_TESTS/05_SEND_TRANSACTIONS.md'' = ''feature-05_send_transactions''"
  by code_simp+

lemma ids_16:
  "nav_guide_id Feature ''FEATURE_TESTS/06_RECEIVE_TRANSACTIONS.md'' = ''feature-06_receive_transactions''"
  "section_guide_id Feature ''FEATURE_TESTS/06_RECEIVE_TRANSACTIONS.md'' = ''feature-06_receive_transactions''"
  "data_guide_id Feature ''FEATURE_TESTS/06_RECEIVE_TRANSACTIONS.md'' = ''feature-06_receive_transactions''"
  "amended_guide_id Feature ''FEATURE_TESTS/06_RECEIVE_TRANSACTIONS.md'' = ''feature-06_receive_transactions''"
  by code_simp+

lemma ids_17:
  "nav_guide_id Feature ''FEATURE_TESTS/07_TRANSACTION_HISTORY.md'' = ''feature-07_transaction_history''"
  "section_guide_id Feature ''FEATURE_TESTS/07_TRANSACTION_HISTORY.md'' = ''feature-07_transaction_history''"
  "data_guide_id Feature ''FEATURE_TESTS/07_TRANSACTION_HISTORY.md'' = ''feature-07_transaction_history''"
  "amended_guide_id Feature ''FEATURE_TESTS/07_TRANSACTION_HISTORY.md'' = ''feature-07_transaction_history''"
  by code_simp+

lemma ids_18:
  "nav_guide_id Feature ''FEATURE_TESTS/08_MULTISIG_WALLETS.md'' = ''feature-08_multisig_wallets''"
  "section_guide_id Feature ''FEATURE_TESTS/08_MULTISIG_WALLETS.md'' = ''feature-08_multisig_wallets''"
  "data_guide_id Feature ''FEATURE_TESTS/08_MULTISIG_WALLETS.md'' = ''feature-08_multisig_wallets''"
  "amended_guide_id Feature ''FEATURE_TESTS/08_MULTISIG_WALLETS.md'' = ''feature-08_multisig_wallets''"
  by code_simp+

lemma ids_19:
  "nav_guide_id Feature ''FEATURE_TESTS/09_SECURITY_FEATURES.md'' = ''feature-09_security_features''"
  "section_guide_id Feature ''FEATURE_TESTS/09_SECURITY_FEATURES.md'' = ''feature-09_security_features''"
  "data_guide_id Feature ''FEATURE_TESTS/09_SECURITY_FEATURES.md'' = ''feature-09_security_features''"
  "amended_guide_id Feature ''FEATURE_TESTS/09_SECURITY_FEATURES.md'' = ''feature-09_security_features''"
  by code_simp+

lemma ids_20:
  "nav_guide_id Feature ''FEATURE_TESTS/10_SETTINGS_PREFERENCES.md'' = ''feature-10_settings_preferences''"
  "section_guide_id Feature ''FEATURE_TESTS/10_SETTINGS_PREFERENCES.md'' = ''feature-10_settings_preferences''"
  "data_guide_id Feature ''FEATURE_TESTS/10_SETTINGS_PREFERENCES.md'' = ''feature-10_settings_preferences''"
  "amended_guide_id Feature ''FEATURE_TESTS/10_SETTINGS_PREFERENCES.md'' = ''feature-10_settings_preferences''"
  by code_simp+

lemma ids_21:
  "nav_guide_id Feature ''FEATURE_TESTS/10_CONTACT_MANAGEMENT.md'' = ''feature-10_contact_management''"
  "section_guide_id Feature ''FEATURE_TESTS/10_CONTACT_MANAGEMENT.md'' = ''feature-10_contact_management''"
  "data_guide_id Feature ''FEATURE_TESTS/10_CONTACT_MANAGEMENT.md'' = ''feature-10_contact_management''"
  "amended_guide_id Feature ''FEATURE_TESTS/10_CONTACT_MANAGEMENT.md'' = ''feature-10_contact_management''"
  by code_simp+

lemma ids_22:
  "nav_guide_id Feature ''FEATURE_TESTS/11_ACCESSIBILITY_PERFORMANCE.md'' = ''feature-11_accessibility_performance''"
  "section_guide_id Feature ''FEATURE_TESTS/11_ACCESSIBILITY_PERFORMANCE.md'' = ''feature-11_accessibility_performance''"
  "data_guide_id Feature ''FEATURE_TESTS/11_ACCESSIBILITY_PERFORMANCE.md'' = ''feature-11_accessibility_performance''"
  "amended_guide_id Feature ''FEATURE_TESTS/11_ACCESSIBILITY_PERFORMANCE.md'' = ''feature-11_accessibility_performance''"
  by code_simp+

lemma ids_23:
  "nav_guide_id Feature ''FEATURE_TESTS/11_TRANSACTION_FILTERING.md'' = ''feature-11_transaction_filtering''"
  "section_guide_id Feature ''FEATURE_TESTS/11_TRANSACTION_FILTERING.md'' = ''feature-11_transaction_filtering''"
  "data_guide_id Feature ''FEATURE_TESTS/11_TRANSACTION_FILTERING.md'' = ''feature-11_transaction_filtering''"
  "amended_guide_id Feature ''FEATURE_TESTS/11_TRANSACTION_FILTERING.md'' = ''feature-11_transaction_filtering''"
  by code_simp+

lemma ids_24:
  "nav_guide_id Feature ''FEATURE_TESTS/12_TRANSACTION_METADATA.md'' = ''feature-12_transaction_metadata''"
  "section_guide_id Feature ''FEATURE_TESTS/12_TRANSACTION_METADATA.md'' = ''feature-12_transaction_metadata''"
  "data_guide_id Feature ''FEATURE_TESTS/12_TRANSACTION_METADATA.md'' = ''feature-12_transaction_metadata''"
  "amended_guide_id Feature ''FEATURE_TESTS/12_TRANSACTION_METADATA.md'' = ''feature-12_transaction_metadata''"
  by code_simp+

lemma ids_25:
  "nav_guide_id Feature ''FEATURE_TESTS/13_ENCRYPTED_BACKUP.md'' = ''feature-13_encrypted_backup''"
  "section_guide_id Feature ''FEATURE_TESTS/13_ENCRYPTED_BACKUP.md'' = ''feature-13_encrypted_backup''"
  "data_guide_id Feature ''FEATURE_TESTS/13_ENCRYPTED_BACKUP.md'' = ''feature-13_encrypted_backup''"
  "amended_guide_id Feature ''FEATURE_TESTS/13_ENCRYPTED_BACKUP.md'' = ''feature-13_encrypted_backup''"
  by code_simp+

lemma ids_26:
  "nav_guide_id Workflow ''PSBT_WORKFLOW_TESTING_GUIDE.md'' = ''psbt_workflow_testing_guide''"
  "section_guide_id Workflow ''PSBT_WORKFLOW_TESTING_GUIDE.md'' = ''psbt_workflow_testing_guide''"
  "data_guide_id Workflow ''PSBT_WORKFLOW_TESTING_GUIDE.md'' = ''psbt_workflow_testing_guide''"
  "amended_guide_id Workflow ''PSBT_WORKFLOW_TESTING_GUIDE.md'' = ''psbt_workflow_testing_guide''"
  by code_simp+

lemmas registered_ids =
  ids_01 ids_02 ids_03 ids_04 ids_05 ids_06 ids_07 ids_08 ids_09 ids_10 ids_11 ids_12 ids_13
  ids_14 ids_15 ids_16 ids_17 ids_18 ids_19 ids_20 ids_21 ids_22 ids_23 ids_24 ids_25 ids_26



text \<open>
  C2 as stated fails: rule (a) drops the directory prefix of a feature test, while the
  code turns it into \<open>feature-\<close>.
\<close>

theorem spec_guide_id_counterexample:
  \<open>(Feature, \<lparr>file' = ''FEATURE_TESTS/01_TAB_ARCHITECTURE.md'', title = ''01. Tab Architecture'',
       icon = [CHR 0xF0, CHR 0x9F, CHR 0xAA, CHR 0x9F]\<rparr>) \<in> set (all_guides GUIDES)
   \<and> data_guide_id Feature ''FEATURE_TESTS/01_TAB_ARCHITECTURE.md'' = ''feature-01_tab_architecture''
   \<and> spec_guide_id Feature ''FEATURE_TESTS/01_TAB_ARCHITECTURE.md'' = ''01_tab_architecture''\<close>
proof -
  have "spec_guide_id Feature ''FEATURE_TESTS/01_TAB_ARCHITECTURE.md'' = ''01_tab_architecture''"
    by code_simp
  then show ?thesis
    by (simp add: all_guides_def GUIDES_def ids_11)
qed

text \<open>
  C2, amended. For every registered path the identifier is the result of the rules (a) to
  (d) in this order, where (a) drops a leading \<open>../\<close> of a workflow path and, for a
  feature test, replaces the leading \<open>FEATURE_TESTS/\<close> by \<open>feature-\<close> instead of
  dropping it. All three chains of the code give this identifier.
\<close>

theorem guide_id_amended_rules:
  "\<forall>(cat, g) \<in> set (all_guides GUIDES).
     data_guide_id cat (file' g) = amended_guide_id cat (file' g)
     \<and> section_guide_id cat (file' g) = amended_guide_id cat (file' g)
     \<and> nav_guide_id cat (file' g) = amended_guide_id cat (file' g)"
  by (simp add: all_guides_def GUIDES_def registered_ids)

theorem guide_id_amended_rules_witness:
  \<open>(Workflow, \<lparr>file' = ''PSBT_WORKFLOW_TESTING_GUIDE.md'', title = ''PSBT Workflow'',
       icon = [CHR 0xF0, CHR 0x9F, CHR 0x94, CHR 0x84]\<rparr>) \<in> set (all_guides GUIDES)
   \<and> data_guide_id Workflow ''PSBT_WORKFLOW_TESTING_GUIDE.md''
       = amended_guide_id Workflow ''PSBT_WORKFLOW_TESTING_GUIDE.md''
   \<and> section_guide_id Workflow ''PSBT_WORKFLOW_TESTING_GUIDE.md''
       = amended_guide_id Workflow ''PSBT_WORKFLOW_TESTING_GUIDE.md''
   \<and> nav_guide_id Workflow ''PSBT_WORKFLOW_TESTING_GUIDE.md''
       = amended_guide_id Workflow ''PSBT_WORKFLOW_TESTING_GUIDE.md''\<close>
proof -
  let ?g = \<open>\<lparr>file' = ''PSBT_WORKFLOW_TESTING_GUIDE.md'', title = ''PSBT Workflow'',
       icon = [CHR 0xF0, CHR 0x9F, CHR 0x94, CHR 0x84]\<rparr>\<close>
  have m: "(Workflow, ?g) \<in> set (all_guides GUIDES)"
    by (simp add: all_guides_def GUIDES_def)
  from bspec [OF guide_id_amended_rules m] m show ?thesis by simp
qed

subsection \<open>Escaping\<close>








subsection \<open>The loop of generate_markdown_data\<close>


lemma markdown_loop_ok:
  "reads_ok disk base_dir cgs \<Longrightarrow>
   markdown_loop disk base_dir cgs (md, out) =
     Inr (md @ concat (map (\<lambda>(k, v). data_line k v) (markdown_entries disk base_dir cgs)),
          out @ read_warnings disk base_dir cgs)"
proof (induction cgs arbitrary: md out)
  case Nil
  show ?case by (simp add: markdown_entries_def read_warnings_def)
next
  case (Cons cg cgs)
  obtain cat g where cg: "cg = (cat, g)" by (cases cg)
  from Cons.prems have ok: "reads_ok disk base_dir cgs"
    and here: "(case disk (path_join base_dir (file' g)) of Content s \<Rightarrow> True | Raises e \<Rightarrow> e = FileNotFoundError)"
    by (simp_all add: reads_ok_def cg)
  show ?case
  proof (cases "disk (path_join base_dir (file' g))")
    case (Content s)
    then show ?thesis
      using Cons.IH [OF ok]
      by (simp add: cg read_file_def truthy_def markdown_entries_def read_warnings_def readable_text_def)
  next
    case (Raises e)
    with here have "e = FileNotFoundError" by simp
    with Raises show ?thesis
      using Cons.IH [OF ok]
      by (simp add: cg read_file_def truthy_def markdown_entries_def read_warnings_def readable_text_def)
  qed
qed

lemma markdown_loop_raises:
  "\<not> reads_ok disk base_dir cgs \<Longrightarrow> \<exists>e. markdown_loop disk base_dir cgs st = Inl e"
proof (induction cgs arbitrary: st)
  case Nil
  then show ?case by (simp add: reads_ok_def)
next
  case (Cons cg cgs)
  obtain cat g where cg: "cg = (cat, g)" by (cases cg)
  obtain md out where st: "st = (md, out)" by (cases st)
  show ?case
  proof (cases "disk (path_join base_dir (file' g))")
    case (Content s)
    with Cons.prems have "\<not> reads_ok disk base_dir cgs" by (simp add: reads_ok_def cg)
    from Cons.IH [OF this] Content show ?thesis
      by (simp add: cg st read_file_def)
  next
    case (Raises e)
    show ?thesis
    proof (cases "e = FileNotFoundError")
      case True
      with Raises Cons.prems have "\<not> reads_ok disk base_dir cgs" by (simp add: reads_ok_def cg)
      from Cons.IH [OF this] Raises True show ?thesis
        by (simp add: cg st read_file_def)
    next
      case False
      with Raises show ?thesis by (simp add: cg st read_file_def)
    qed
  qed
qed




lemma markdown_loop_cong:
  "\<forall>(cat, g) \<in> set cgs. disk1 (path_join b1 (file' g)) = disk2 (path_join b2 (file' g)) \<Longrightarrow>
   map_sum id fst (markdown_loop disk1 b1 cgs (md, o1)) = map_sum id fst (markdown_loop disk2 b2 cgs (md, o2))"
proof (induction cgs arbitrary: md o1 o2)
  case Nil
  show ?case by simp
next
  case (Cons cg cgs)
  obtain cat g where cg: "cg = (cat, g)" by (cases cg)
  from Cons.prems have same: "disk1 (path_join b1 (file' g)) = disk2 (path_join b2 (file' g))"
    and rest: "\<forall>(cat, g) \<in> set cgs. disk1 (path_join b1 (file' g)) = disk2 (path_join b2 (file' g))"
    by (simp_all add: cg)
  show ?case
    using Cons.IH [OF rest] same
    by (cases "disk2 (path_join b2 (file' g))") (simp_all add: cg read_file_def)
qed


subsection \<open>The page and its embedded content\<close>


lemma foldl_append_concat_prod:
  "foldl (\<lambda>acc (a, b). acc @ f a b) s xs = s @ concat (map (\<lambda>(a, b). f a b) xs)"
  by (induction xs arbitrary: s) (simp_all add: case_prod_beta)

lemma generate_markdown_data_ok:
  "reads_ok disk base_dir (all_guides gs) \<Longrightarrow>
   generate_markdown_data gs base_dir disk =
     Inr (markdown_text (markdown_entries disk base_dir (all_guides gs)),
          read_warnings disk base_dir (all_guides gs))"
  by (simp add: generate_markdown_data_def markdown_loop_ok markdown_text_def)

lemma generate_markdown_data_raises:
  assumes "\<not> reads_ok disk base_dir (all_guides gs)"
  shows "\<exists>e. generate_markdown_data gs base_dir disk = Inl e"
proof -
  from markdown_loop_raises [OF assms]
  obtain e where \<open>markdown_loop disk base_dir (all_guides gs) (''const markdownContent = {\<newline>'', []) = Inl e\<close>
    by blast
  then show ?thesis by (simp add: generate_markdown_data_def)
qed

lemma generate_html_unfold:
  "generate_html pt e =
     (case generate_markdown_data GUIDES (script_dir e) (file_reads e) of
        Inl err \<Rightarrow> Inl err
      | Inr (markdown_data, printed) \<Rightarrow>
          (case write_error e (path_join (script_dir e) ''testing-guide.html'') of
             Some err \<Rightarrow> Inl err
           | None \<Rightarrow> Inr \<lparr>output_path = path_join (script_dir e) ''testing-guide.html'',
                          html = page_top pt @ markdown_data @ page_script pt,
                          console = printed @ closing_lines e\<rparr>))"
  by (simp add: generate_html_def page_top_def closing_lines_def Let_def foldl_append_concat_prod
      split: sum.splits prod.splits option.splits)

lemma generate_html_ok:
  assumes "reads_ok (file_reads e) (script_dir e) (all_guides GUIDES)"
    and "write_error e (path_join (script_dir e) ''testing-guide.html'') = None"
  shows "generate_html pt e =
     Inr \<lparr>output_path = path_join (script_dir e) ''testing-guide.html'',
          html = page_top pt
                 @ markdown_text (markdown_entries (file_reads e) (script_dir e) (all_guides GUIDES))
                 @ page_script pt,
          console = read_warnings (file_reads e) (script_dir e) (all_guides GUIDES) @ closing_lines e\<rparr>"
  using assms by (simp add: generate_html_unfold generate_markdown_data_ok)

lemma generate_html_raises:
  "\<not> reads_ok (file_reads e) (script_dir e) (all_guides GUIDES) \<Longrightarrow> \<exists>err. generate_html pt e = Inl err"
  using generate_markdown_data_raises [of "file_reads e" "script_dir e" GUIDES]
  by (auto simp: generate_html_unfold)














lemma markdown_entries_cong:
  "\<forall>(cat, g) \<in> set cgs. readable_text d1 b1 g = readable_text d2 b2 g \<Longrightarrow>
   markdown_entries d1 b1 cgs = markdown_entries d2 b2 cgs"
  by (induction cgs) (auto simp: markdown_entries_def)


lemma generate_markdown_data_cong:
  assumes "\<forall>(cat, g) \<in> set (all_guides gs). disk1 (path_join b1 (file' g)) = disk2 (path_join b2 (file' g))"
    and "generate_markdown_data gs b1 disk1 = Inr (m1, p1)"
    and "generate_markdown_data gs b2 disk2 = Inr (m2, p2)"
  shows "m1 = m2"
proof -
  let ?start = \<open>''const markdownContent = {\<newline>''\<close>
  from assms(2) obtain a1 where l1: "markdown_loop disk1 b1 (all_guides gs) (?start, []) = Inr (a1, p1)"
    and a1: \<open>m1 = a1 @ ''};\<newline>''\<close>
    by (auto simp: generate_markdown_data_def split: sum.splits)
  from assms(3) obtain a2 where l2: "markdown_loop disk2 b2 (all_guides gs) (?start, []) = Inr (a2, p2)"
    and a2: \<open>m2 = a2 @ ''};\<newline>''\<close>
    by (auto simp: generate_markdown_data_def split: sum.splits)
  from markdown_loop_cong [OF assms(1), of ?start "[]" "[]"] l1 l2 have "a1 = a2" by simp
  with a1 a2 show ?thesis by simp
qed



subsection \<open>Colliding identifiers\<close>




subsection \<open>Missing and empty files\<close>




lemma example_env_reads_ok:
  "reads_ok (file_reads example_env) (script_dir example_env) (all_guides GUIDES)"
  by (simp add: reads_ok_def all_guides_def GUIDES_def example_env_def path_join_def)


subsection \<open>Determinism of the page\<close>

lemma reads_ok_cong:
  "\<forall>(cat, g) \<in> set cgs. d1 (path_join b1 (file' g)) = d2 (path_join b2 (file' g)) \<Longrightarrow>
   reads_ok d1 b1 cgs = reads_ok d2 b2 cgs"
  by (induction cgs) (simp_all add: reads_ok_def case_prod_beta)

lemma readable_text_cong:
  "d1 (path_join b1 (file' g)) = d2 (path_join b2 (file' g)) \<Longrightarrow>
   readable_text d1 b1 g = readable_text d2 b2 g"
  by (simp add: readable_text_def)


text \<open>
  C8. The page depends on the run only through what the reads of the registered files
  return: a run that succeeds, and any other run whose reads of the registered files
  return the same and whose output file can be written, write the same page, whatever
  the clock, the directory of the script, the other files and \<open>os.path.abspath\<close> are.
\<close>

theorem generate_html_deterministic:
  assumes "\<forall>(cat, g) \<in> set (all_guides GUIDES).
             file_reads e1 (path_join (script_dir e1) (file' g))
               = file_reads e2 (path_join (script_dir e2) (file' g))"
    and "generate_html pt e1 = Inr r1"
    and "write_error e2 (path_join (script_dir e2) ''testing-guide.html'') = None"
  shows "\<exists>r2. generate_html pt e2 = Inr r2 \<and> html r2 = html r1"
proof -
  have ok1: "reads_ok (file_reads e1) (script_dir e1) (all_guides GUIDES)"
  proof (rule ccontr)
    assume "\<not> reads_ok (file_reads e1) (script_dir e1) (all_guides GUIDES)"
    from generate_html_raises [OF this, of pt] assms(2) show False by auto
  qed
  with reads_ok_cong [OF assms(1)]
  have ok2: "reads_ok (file_reads e2) (script_dir e2) (all_guides GUIDES)" by simp
  have w1: "write_error e1 (path_join (script_dir e1) ''testing-guide.html'') = None"
    using assms(2) ok1
    by (auto simp: generate_html_unfold generate_markdown_data_ok split: option.splits)
  have "\<forall>(cat, g) \<in> set (all_guides GUIDES).
          readable_text (file_reads e1) (script_dir e1) g = readable_text (file_reads e2) (script_dir e2) g"
    using assms(1) by (auto intro: readable_text_cong)
  then have same: "markdown_entries (file_reads e1) (script_dir e1) (all_guides GUIDES)
      = markdown_entries (file_reads e2) (script_dir e2) (all_guides GUIDES)"
    by (rule markdown_entries_cong)
  from generate_html_ok [OF ok1 w1, of pt] assms(2)
  have h1: "html r1 = page_top pt
      @ markdown_text (markdown_entries (file_reads e1) (script_dir e1) (all_guides GUIDES))
      @ page_script pt"
    by auto
  from generate_html_ok [OF ok2 assms(3), of pt] h1 same show ?thesis by simp
qed

theorem generate_html_deterministic_witness:
  \<open>\<exists>r1 r2. generate_html example_page example_env = Inr r1
      \<and> generate_html example_page example_env_later = Inr r2
      \<and> html r2 = html r1
      \<and> now example_env \<noteq> now example_env_later
      \<and> script_dir example_env \<noteq> script_dir example_env_later\<close>
proof -
  have same: "\<forall>(cat, g) \<in> set (all_guides GUIDES).
      file_reads example_env (path_join (script_dir example_env) (file' g))
        = file_reads example_env_later (path_join (script_dir example_env_later) (file' g))"
    by (simp add: all_guides_def GUIDES_def example_env_def example_env_later_def path_join_def)
  have w1: \<open>write_error example_env (path_join (script_dir example_env) ''testing-guide.html'') = None\<close>
    by (simp add: example_env_def)
  have w2: \<open>write_error example_env_later (path_join (script_dir example_env_later) ''testing-guide.html'') = None\<close>
    by (simp add: example_env_later_def)
  from generate_html_ok [OF example_env_reads_ok w1, of example_page]
  obtain r1 where r1: "generate_html example_page example_env = Inr r1" by blast
  from generate_html_deterministic [OF same r1 w2]
  obtain r2 where "generate_html example_page example_env_later = Inr r2" and "html r2 = html r1"
    by blast
  moreover have "now example_env \<noteq> now example_env_later"
    by (simp add: example_env_def example_env_later_def)
  moreover have "script_dir example_env \<noteq> script_dir example_env_later"
    by (simp add: example_env_def example_env_later_def)
  ultimately show ?thesis using r1 by blast
qed




section \<open>Properties of create-tester-package.py\<close>

subsection \<open>Directories as association lists\<close>

lemma and_then_Inr [simp]: "and_then (Inr x) k = k x"
  by (simp add: and_then_def)

lemma and_then_Inl [simp]: "and_then (Inl err) k = Inl err"
  by (simp add: and_then_def)

lemma and_then_InrD: "and_then m k = Inr y \<Longrightarrow> \<exists>x. m = Inr x \<and> k x = Inr y"
  by (cases m) simp_all


lemma update_last_entry:
  "k \<notin> fst ` set al \<Longrightarrow> AList.update k v (al @ [(k, w)]) = al @ [(k, v)]"
  by (induction al) auto

lemma delete_last_entry: "k \<notin> fst ` set al \<Longrightarrow> AList.delete k (al @ [(k, w)]) = al"
  by (induction al) auto

lemma delete_append: "AList.delete k (xs @ ys) = AList.delete k xs @ AList.delete k ys"
  by (simp add: AList.delete_eq)



lemma package_name_other [simp]:
  \<open>package_name env \<noteq> ''dist''\<close>
  \<open>package_name env \<noteq> ''TESTING_GUIDES''\<close>
  \<open>package_name env \<noteq> ''README.md''\<close>
  \<open>package_name env \<noteq> ''CHANGELOG.md''\<close>
  \<open>''dist'' \<noteq> package_name env\<close>
  \<open>''TESTING_GUIDES'' \<noteq> package_name env\<close>
  \<open>''README.md'' \<noteq> package_name env\<close>
  \<open>''CHANGELOG.md'' \<noteq> package_name env\<close>
  by (simp_all add: package_name_def)

lemma zip_filename_other [simp]:
  \<open>zip_filename env \<noteq> ''dist''\<close>
  \<open>zip_filename env \<noteq> ''TESTING_GUIDES''\<close>
  \<open>zip_filename env \<noteq> ''README.md''\<close>
  \<open>zip_filename env \<noteq> ''CHANGELOG.md''\<close>
  \<open>zip_filename env \<noteq> package_name env\<close>
  \<open>package_name env \<noteq> zip_filename env\<close>
  by (simp_all add: zip_filename_def package_name_def)


lemma prepare_staging_file:
  "map_of es (package_name env) = Some (File d) \<Longrightarrow> prepare_staging env (Dir es) = Inl NotADirectoryError"
  by (simp add: prepare_staging_def path_exists_def package_dir_def rmtree_def)

lemma prepare_staging_not_dir: "prepare_staging env (File d) = Inl NotADirectoryError"
  by (simp add: prepare_staging_def path_exists_def package_dir_def mkdir_def)

subsection \<open>A missing build\<close>







end
